theory Spec2Isabelle
  imports Complex_Main "HOL-Library.List_Lexorder" "HOL-Library.Char_ord"
begin

section \<open>Python exceptions\<close>

text \<open>
  The exceptions that the modelled code raises or catches. Every constructor but
  \<open>KeyboardInterrupt\<close> is a subclass of Python's \<open>Exception\<close>, which is what
  \<^verbatim>\<open>except Exception\<close> catches. \<open>OperationalError\<close> is the database driver's
  error (for instance a missing table), \<open>RestClientError\<close> stands for whatever the remote
  price client raises (rate limit, bad token, network).
\<close>

datatype py_exn =
    KeyError string
  | ValueError string
  | NameError string
  | OperationalError string
  | RestClientError string
  | KeyboardInterrupt

fun is_Exception :: "py_exn \<Rightarrow> bool" where
  "is_Exception KeyboardInterrupt = False"
| "is_Exception _ = True"

text \<open>\<^verbatim>\<open>str(e)\<close>: the message; a \<open>KeyError\<close> prints its key in quotes.\<close>

fun str_exn :: "py_exn \<Rightarrow> string" where
  "str_exn (KeyError k) = [CHR 0x27] @ k @ [CHR 0x27]"
| "str_exn (ValueError m) = m"
| "str_exn (NameError m) = m"
| "str_exn (OperationalError m) = m"
| "str_exn (RestClientError m) = m"
| "str_exn KeyboardInterrupt = []"

text \<open>\<^verbatim>\<open>needle in haystack\<close> on strings.\<close>

fun starts_with :: "string \<Rightarrow> string \<Rightarrow> bool" where
  "starts_with [] ys = True"
| "starts_with (x # xs) [] = False"
| "starts_with (x # xs) (y # ys) = (x = y \<and> starts_with xs ys)"

fun contains :: "string \<Rightarrow> string \<Rightarrow> bool" where
  "contains needle [] = (needle = [])"
| "contains needle (y # ys) = (starts_with needle (y # ys) \<or> contains needle ys)"

text \<open>\<^verbatim>\<open>str(n)\<close> for a natural number, as an f-string renders it.\<close>

fun str_nat :: "nat \<Rightarrow> string" where
  "str_nat n = (if n < 10 then [char_of (48 + n)]
                else str_nat (n div 10) @ [char_of (48 + n mod 10)])"

declare str_nat.simps [simp del]

section \<open>The time series store (database.py)\<close>

text \<open>
  The SQLite database is a map from table names to the rows of the table in storage
  order. A row is its \<open>date\<close> column, as the text the database compares, and the rest of
  the row. The state also keeps what the program printed and the calls that reached the
  remote price service, so that a theorem can say that no call was made.
\<close>

record 'a world =
  db :: "string \<rightharpoonup> (string \<times> 'a) list"
  remote_calls :: "(string \<times> string \<times> string \<times> string) list"
  stdout :: "string list"

definition print :: "'a world \<Rightarrow> string \<Rightarrow> 'a world" where
  "print w line = w\<lparr>stdout := stdout w @ [line]\<rparr>"






text \<open>
  The names bound at module level in database.py: its four import lines and the class.
  A name that is neither here nor a builtin raises \<open>NameError\<close> when it is evaluated.
\<close>

definition database_globals :: "string list" where
  "database_globals =
     [''os'', ''pd'', ''create_engine'', ''inspect'', ''DateTime'', ''Float'', ''FinancialDatabase'']"

definition resolve_name :: "string list \<Rightarrow> string \<Rightarrow> py_exn + unit" where
  "resolve_name globals n =
     (if List.member globals n then Inr ()
      else Inl (NameError (''name '' @ [CHR 0x27] @ n @ [CHR 0x27] @ '' is not defined'')))"

text \<open>
  \<^verbatim>\<open>clean_old_data\<close>. The cutoff \<^verbatim>\<open>datetime.now() - timedelta(days=keep_days)\<close> is computed
  before the \<^verbatim>\<open>try\<close>, so an exception there leaves the function; only the \<^verbatim>\<open>DELETE\<close> is
  guarded. \<open>cutoff_of\<close> is the text of that cutoff for a number of days (the clock is not
  part of the model).
\<close>

definition clean_old_data ::
  "(int \<Rightarrow> string) \<Rightarrow> 'a world \<Rightarrow> string \<Rightarrow> int \<Rightarrow> (py_exn + unit) \<times> 'a world" where
  "clean_old_data cutoff_of w table_name keep_days =
     (if keep_days \<le> 0 then (Inr (), w)
      else
        case resolve_name database_globals ''datetime'' of
          Inl e \<Rightarrow> (Inl e, w)
        | Inr _ \<Rightarrow>
            (case resolve_name database_globals ''timedelta'' of
               Inl e \<Rightarrow> (Inl e, w)
             | Inr _ \<Rightarrow>
                 (let cutoff_date = cutoff_of keep_days in
                  case db w table_name of
                    None \<Rightarrow>
                      (Inr (), print w (''Error cleaning old data: '' @
                                 str_exn (OperationalError (''no such table: '' @ table_name))))
                  | Some rows \<Rightarrow>
                      (Inr (),
                       print (w\<lparr>db := (db w)(table_name \<mapsto> filter (\<lambda>r. \<not> fst r < cutoff_date) rows)\<rparr>)
                         (''Cleaned data older than '' @ str_nat (nat keep_days) @ '' days from '' @ table_name)))))"

section \<open>The remote fetcher (datafetch.py)\<close>

text \<open>
  \<^verbatim>\<open>pd.to_datetime\<close> on the \<open>date\<close> column, which raises on text it cannot parse;
  \<open>to_datetime\<close> is the library's parser together with the removal of the time zone.
\<close>

fun convert_dates ::
  "(string \<Rightarrow> py_exn + string) \<Rightarrow> (string \<times> 'a) list \<Rightarrow> py_exn + (string \<times> 'a) list" where
  "convert_dates to_datetime [] = Inr []"
| "convert_dates to_datetime ((d, x) # rows) =
     (case to_datetime d of
        Inl e \<Rightarrow> Inl e
      | Inr d' \<Rightarrow>
          (case convert_dates to_datetime rows of
             Inl e \<Rightarrow> Inl e
           | Inr rows' \<Rightarrow> Inr ((d', x) # rows')))"

text \<open>
  \<^verbatim>\<open>fetch_data\<close>. \<open>client\<close> is the remote service: what
  \<^verbatim>\<open>get_ticker_price(ticker, startDate, endDate, frequency)\<close> returns or raises; \<open>now\<close> is
  today's date as text. Everything from the remote call to \<^verbatim>\<open>sort_index\<close> is inside the
  \<^verbatim>\<open>try\<close>; the handler is \<^verbatim>\<open>except Exception\<close>. Rows with equal dates keep their order
  in the sort.
\<close>

definition fetch_data ::
  "(string \<Rightarrow> string \<Rightarrow> string \<Rightarrow> string \<Rightarrow> py_exn + (string \<times> 'a) list) \<Rightarrow>
   (string \<Rightarrow> py_exn + string) \<Rightarrow> string \<Rightarrow>
   'a world \<Rightarrow> string \<Rightarrow> string \<Rightarrow> string option \<Rightarrow> string \<Rightarrow>
   (py_exn + (string \<times> 'a) list) \<times> 'a world" where
  "fetch_data client to_datetime now w ticker start_date end_date frq =
     (let end_date' = (case end_date of None \<Rightarrow> now | Some e \<Rightarrow> e);
          w1 = w\<lparr>remote_calls := remote_calls w @ [(ticker, start_date, end_date', frq)]\<rparr>;
          attempt =
            (case client ticker start_date end_date' frq of
               Inl e \<Rightarrow> Inl e
             | Inr historical_prices \<Rightarrow>
                 if historical_prices \<noteq> [] then
                   (case convert_dates to_datetime historical_prices of
                      Inl e \<Rightarrow> Inl e
                    | Inr df \<Rightarrow> Inr (sort_key fst df))
                 else Inr [])
      in case attempt of
           Inr df \<Rightarrow> (Inr df, w1)
         | Inl e \<Rightarrow>
             if is_Exception e then
               (Inr [],
                print w1
                  (if contains ''API limit reached'' (str_exn e) then
                     ''Tiingo API limit reached - try again later or upgrade your plan''
                   else if contains ''Invalid token'' (str_exn e) then
                     ''Invalid API token - check your .env file''
                   else ''Error fetching data for '' @ ticker @ '': '' @ str_exn e))
             else (Inl e, w1))"

section \<open>The cache coordinator (main.py)\<close>

record params =
  tickers :: "string list"
  start_date :: string
  end_date :: "string option"
  freq :: string
  no_plots :: bool
  cache_days :: int


section \<open>Floating point values and pandas series\<close>

text \<open>
  A value of a numeric column: a finite number, one of the two infinities, or \<open>NaN\<close>,
  which is also how pandas marks a missing or undefined entry. Finite arithmetic is the
  exact arithmetic of the reals: rounding and overflow of doubles are not modelled, and
  zero has no sign (a division of a nonzero number by zero takes the sign of the
  numerator).
\<close>

datatype fval = NaN | NInf | Fin real | PInf

fun fneg :: "fval \<Rightarrow> fval" where
  "fneg NaN = NaN"
| "fneg NInf = PInf"
| "fneg (Fin x) = Fin (- x)"
| "fneg PInf = NInf"

fun fabs :: "fval \<Rightarrow> fval" where
  "fabs NaN = NaN"
| "fabs NInf = PInf"
| "fabs (Fin x) = Fin \<bar>x\<bar>"
| "fabs PInf = PInf"

fun fadd :: "fval \<Rightarrow> fval \<Rightarrow> fval" where
  "fadd NaN _ = NaN"
| "fadd _ NaN = NaN"
| "fadd (Fin x) (Fin y) = Fin (x + y)"
| "fadd PInf NInf = NaN"
| "fadd NInf PInf = NaN"
| "fadd PInf _ = PInf"
| "fadd _ PInf = PInf"
| "fadd NInf _ = NInf"
| "fadd _ NInf = NInf"

definition fsub :: "fval \<Rightarrow> fval \<Rightarrow> fval" where
  "fsub a b = fadd a (fneg b)"

text \<open>The sign of an infinite product or quotient: \<open>signed_inf True\<close> is \<open>+\<infinity>\<close>.\<close>

definition signed_inf :: "bool \<Rightarrow> fval" where
  "signed_inf positive = (if positive then PInf else NInf)"

fun fmul :: "fval \<Rightarrow> fval \<Rightarrow> fval" where
  "fmul NaN _ = NaN"
| "fmul _ NaN = NaN"
| "fmul (Fin x) (Fin y) = Fin (x * y)"
| "fmul (Fin x) PInf = (if x = 0 then NaN else signed_inf (0 < x))"
| "fmul (Fin x) NInf = (if x = 0 then NaN else signed_inf (x < 0))"
| "fmul PInf (Fin y) = (if y = 0 then NaN else signed_inf (0 < y))"
| "fmul NInf (Fin y) = (if y = 0 then NaN else signed_inf (y < 0))"
| "fmul PInf PInf = PInf"
| "fmul NInf NInf = PInf"
| "fmul PInf NInf = NInf"
| "fmul NInf PInf = NInf"

fun fdiv :: "fval \<Rightarrow> fval \<Rightarrow> fval" where
  "fdiv NaN _ = NaN"
| "fdiv _ NaN = NaN"
| "fdiv (Fin x) (Fin y) =
     (if y \<noteq> 0 then Fin (x / y) else if x = 0 then NaN else signed_inf (0 < x))"
| "fdiv (Fin x) PInf = Fin 0"
| "fdiv (Fin x) NInf = Fin 0"
| "fdiv PInf (Fin y) = signed_inf (0 \<le> y)"
| "fdiv NInf (Fin y) = signed_inf (y < 0)"
| "fdiv PInf PInf = NaN"
| "fdiv PInf NInf = NaN"
| "fdiv NInf PInf = NaN"
| "fdiv NInf NInf = NaN"

text \<open>Comparison: false as soon as one side is \<open>NaN\<close>.\<close>

fun flt :: "fval \<Rightarrow> fval \<Rightarrow> bool" where
  "flt NaN _ = False"
| "flt _ NaN = False"
| "flt (Fin x) (Fin y) = (x < y)"
| "flt NInf NInf = False"
| "flt NInf _ = True"
| "flt _ NInf = False"
| "flt PInf _ = False"
| "flt _ PInf = True"

definition fgt :: "fval \<Rightarrow> fval \<Rightarrow> bool" where
  "fgt a b = flt b a"

text \<open>The maximum that skips \<open>NaN\<close>, as \<^verbatim>\<open>max(axis=1)\<close> does along a row.\<close>

definition fmax :: "fval \<Rightarrow> fval \<Rightarrow> fval" where
  "fmax a b = (if a = NaN then b else if b = NaN then a else if flt a b then b else a)"

definition row_max :: "fval list \<Rightarrow> fval" where
  "row_max vs = foldl fmax NaN vs"

text \<open>\<^verbatim>\<open>shift(1)\<close>, \<^verbatim>\<open>diff()\<close>, \<^verbatim>\<open>where(cond, other)\<close> and forward filling.\<close>

definition shift1 :: "fval list \<Rightarrow> fval list" where
  "shift1 xs = (if xs = [] then [] else NaN # butlast xs)"

definition diff :: "fval list \<Rightarrow> fval list" where
  "diff xs = map2 fsub xs (shift1 xs)"

definition series_where :: "(fval \<Rightarrow> bool) \<Rightarrow> fval \<Rightarrow> fval list \<Rightarrow> fval list" where
  "series_where cond other xs = map (\<lambda>x. if cond x then x else other) xs"

fun ffill_from :: "fval \<Rightarrow> fval list \<Rightarrow> fval list" where
  "ffill_from prev [] = []"
| "ffill_from prev (x # xs) =
     (if x = NaN then prev # ffill_from prev xs else x # ffill_from x xs)"

definition ffill :: "fval list \<Rightarrow> fval list" where
  "ffill xs = ffill_from NaN xs"

text \<open>
  \<^verbatim>\<open>pct_change()\<close>: the series, filled as \<open>fill_method\<close> says, over itself shifted by one,
  minus one. The library's default for \<open>fill_method\<close> is padding in the releases before
  3.0 and no filling after; the caller passes it.
\<close>

datatype fill_method = Pad | NoFill

definition pct_change :: "fill_method \<Rightarrow> fval list \<Rightarrow> fval list" where
  "pct_change fm xs =
     (let data = (case fm of Pad \<Rightarrow> ffill xs | NoFill \<Rightarrow> xs)
      in map2 (\<lambda>a b. fsub (fdiv a b) (Fin 1)) data (shift1 data))"

text \<open>
  \<^verbatim>\<open>cumprod()\<close> skips missing values: a \<open>NaN\<close> entry stays \<open>NaN\<close> in the result and leaves
  the running product as it was.
\<close>

fun cumprod_from :: "fval \<Rightarrow> fval list \<Rightarrow> fval list" where
  "cumprod_from acc [] = []"
| "cumprod_from acc (x # xs) =
     (if x = NaN then NaN # cumprod_from acc xs
      else fmul acc x # cumprod_from (fmul acc x) xs)"

definition cumprod :: "fval list \<Rightarrow> fval list" where
  "cumprod xs = cumprod_from (Fin 1) xs"

text \<open>
  \<^verbatim>\<open>rolling(window)\<close>: the window ending at \<open>i\<close> holds the \<open>window\<close> entries up to and
  including \<open>i\<close>. The minimum number of observations is the window itself, and an
  infinite entry counts as missing: the result is \<open>NaN\<close> unless the window is full and
  all of it is finite.
\<close>

definition window_at :: "nat \<Rightarrow> nat \<Rightarrow> 'a list \<Rightarrow> 'a list" where
  "window_at w i xs = take w (drop (Suc i - w) xs)"

fun finite_vals :: "fval list \<Rightarrow> real list option" where
  "finite_vals [] = Some []"
| "finite_vals (Fin x # xs) = (case finite_vals xs of None \<Rightarrow> None | Some vs \<Rightarrow> Some (x # vs))"
| "finite_vals (_ # xs) = None"

definition rolling_apply :: "(real list \<Rightarrow> fval) \<Rightarrow> nat \<Rightarrow> fval list \<Rightarrow> fval list" where
  "rolling_apply f w xs =
     map (\<lambda>i. if w = 0 \<or> Suc i < w then NaN
              else case finite_vals (window_at w i xs) of
                     None \<Rightarrow> NaN
                   | Some vs \<Rightarrow> f vs)
         [0..<length xs]"

definition mean :: "real list \<Rightarrow> real" where
  "mean vs = sum_list vs / real (length vs)"

text \<open>The sample standard deviation (one degree of freedom less than the window).\<close>

definition sample_std :: "real list \<Rightarrow> fval" where
  "sample_std vs =
     (if length vs < 2 then NaN
      else Fin (sqrt (sum_list (map (\<lambda>v. (v - mean vs)\<^sup>2) vs) / real (length vs - 1))))"

definition rolling_mean :: "nat \<Rightarrow> fval list \<Rightarrow> fval list" where
  "rolling_mean w xs = rolling_apply (\<lambda>vs. Fin (mean vs)) w xs"

definition rolling_std :: "nat \<Rightarrow> fval list \<Rightarrow> fval list" where
  "rolling_std w xs = rolling_apply sample_std w xs"

text \<open>
  \<^verbatim>\<open>ewm(span=s).mean()\<close> with the library's defaults (adjusted weights, no minimum number
  of periods, missing values not ignored), as the library computes it: \<open>weighted\<close> is the
  current average and \<open>old_wt\<close> the total weight behind it; each step decays the old
  weight by \<open>1 - \<alpha>\<close> and adds the new observation with weight one. A span below one is
  refused.
\<close>

fun ewm_loop :: "real \<Rightarrow> fval \<Rightarrow> real \<Rightarrow> fval list \<Rightarrow> fval list" where
  "ewm_loop old_wt_factor weighted old_wt [] = []"
| "ewm_loop old_wt_factor weighted old_wt (cur # xs) =
     (if weighted \<noteq> NaN then
        (if cur \<noteq> NaN then
           (let old_wt1 = old_wt * old_wt_factor;
                weighted' =
                  (if weighted \<noteq> cur then
                     fdiv (fadd (fmul (Fin old_wt1) weighted) (fmul (Fin 1) cur)) (Fin (old_wt1 + 1))
                   else weighted)
            in weighted' # ewm_loop old_wt_factor weighted' (old_wt1 + 1) xs)
         else weighted # ewm_loop old_wt_factor weighted (old_wt * old_wt_factor) xs)
      else if cur \<noteq> NaN then cur # ewm_loop old_wt_factor cur old_wt xs
      else NaN # ewm_loop old_wt_factor weighted old_wt xs)"

definition ewm_mean :: "real \<Rightarrow> fval list \<Rightarrow> py_exn + fval list" where
  "ewm_mean spn xs =
     (if spn < 1 then Inl (ValueError ''span must satisfy: span >= 1'')
      else
        (let alpha = 2 / (spn + 1) in
         case xs of
           [] \<Rightarrow> Inr []
         | x # rest \<Rightarrow> Inr (x # ewm_loop (1 - alpha) x 1 rest)))"

section \<open>The indicator engine (analysis.py)\<close>

text \<open>
  The analyzer's data frame: its columns by name. Reading a column that is not there
  raises \<open>KeyError\<close>.
\<close>

type_synonym frame = "string \<rightharpoonup> fval list"

definition getitem :: "frame \<Rightarrow> string \<Rightarrow> py_exn + fval list" where
  "getitem df c = (case df c of None \<Rightarrow> Inl (KeyError c) | Some s \<Rightarrow> Inr s)"

record returns =
  daily :: "fval list"
  cumulative :: "fval list"

definition calculate_returns :: "fill_method \<Rightarrow> frame \<Rightarrow> py_exn + returns" where
  "calculate_returns default_fill df =
     (if df ''adjClose'' = None then
        Inl (ValueError (''Data must contain '' @ [CHR 0x27] @ ''adjClose'' @ [CHR 0x27] @ '' column''))
      else
        (let d = pct_change default_fill (the (df ''adjClose''))
         in Inr \<lparr>daily = d, cumulative = cumprod (map (fadd (Fin 1)) d)\<rparr>))"

definition rsi_avg_gain :: "nat \<Rightarrow> fval list \<Rightarrow> fval list" where
  "rsi_avg_gain w adj =
     (let delta = diff adj;
          gain = series_where (\<lambda>d. fgt d (Fin 0)) (Fin 0) delta
      in rolling_mean w gain)"

definition rsi_avg_loss :: "nat \<Rightarrow> fval list \<Rightarrow> fval list" where
  "rsi_avg_loss w adj =
     (let delta = diff adj;
          loss = map fneg (series_where (\<lambda>d. flt d (Fin 0)) (Fin 0) delta)
      in rolling_mean w loss)"

definition rsi :: "nat \<Rightarrow> frame \<Rightarrow> py_exn + fval list" where
  "rsi w df =
     (case getitem df ''adjClose'' of
        Inl e \<Rightarrow> Inl e
      | Inr adj \<Rightarrow>
          (let avg_gain = rsi_avg_gain w adj;
               avg_loss = rsi_avg_loss w adj;
               rs = map2 fdiv avg_gain avg_loss
           in Inr (map (\<lambda>r. fsub (Fin 100) (fdiv (Fin 100) (fadd (Fin 1) r))) rs)))"

definition macd :: "real \<Rightarrow> real \<Rightarrow> real \<Rightarrow> frame \<Rightarrow> py_exn + (fval list \<times> fval list)" where
  "macd fast slow signal df =
     (case getitem df ''adjClose'' of
        Inl e \<Rightarrow> Inl e
      | Inr adj1 \<Rightarrow>
     (case ewm_mean fast adj1 of
        Inl e \<Rightarrow> Inl e
      | Inr ema_fast \<Rightarrow>
     (case getitem df ''adjClose'' of
        Inl e \<Rightarrow> Inl e
      | Inr adj2 \<Rightarrow>
     (case ewm_mean slow adj2 of
        Inl e \<Rightarrow> Inl e
      | Inr ema_slow \<Rightarrow>
          (let macd_line = map2 fsub ema_fast ema_slow
           in case ewm_mean signal macd_line of
                Inl e \<Rightarrow> Inl e
              | Inr signal_line \<Rightarrow> Inr (macd_line, signal_line))))))"

record bands =
  upper :: "fval list"
  middle :: "fval list"
  lower :: "fval list"

definition bollinger_bands :: "nat \<Rightarrow> real \<Rightarrow> frame \<Rightarrow> py_exn + bands" where
  "bollinger_bands w num_std df =
     (case getitem df ''adjClose'' of
        Inl e \<Rightarrow> Inl e
      | Inr adj1 \<Rightarrow>
     (case getitem df ''adjClose'' of
        Inl e \<Rightarrow> Inl e
      | Inr adj2 \<Rightarrow>
          (let rolling_mean' = rolling_mean w adj1;
               rolling_std' = rolling_std w adj2
           in Inr \<lparr>upper = map2 fadd rolling_mean' (map (\<lambda>s. fmul s (Fin num_std)) rolling_std'),
                   middle = rolling_mean',
                   lower = map2 fsub rolling_mean' (map (\<lambda>s. fmul s (Fin num_std)) rolling_std')\<rparr>)))"

text \<open>
  The true range: the row-wise maximum of the three components, which skips the two
  that are undefined in the first row.
\<close>

definition true_range :: "fval list \<Rightarrow> fval list \<Rightarrow> fval list \<Rightarrow> fval list" where
  "true_range high low adj =
     (let tr1 = map2 fsub high low;
          tr2 = map fabs (map2 fsub high (shift1 adj));
          tr3 = map fabs (map2 fsub low (shift1 adj))
      in map (\<lambda>(a, b, c). row_max [a, b, c]) (zip tr1 (zip tr2 tr3)))"

definition atr :: "nat \<Rightarrow> frame \<Rightarrow> py_exn + fval list" where
  "atr w df =
     (let required_columns = [''high'', ''low'', ''adjClose''] in
      if \<not> list_all (\<lambda>c. df c \<noteq> None) required_columns then
        Inl (ValueError ''Data must contain high, low, and adjClose columns'')
      else
        Inr (rolling_mean w (true_range (the (df ''high'')) (the (df ''low'')) (the (df ''adjClose'')))))"

section \<open>Specification-side notions and concrete inputs\<close>



definition rate_limited_client ::
  "string \<Rightarrow> string \<Rightarrow> string \<Rightarrow> string \<Rightarrow> py_exn + (string \<times> real) list" where
  "rate_limited_client ticker s e f = Inl (RestClientError ''Error: API limit reached for this hour'')"

text \<open>A date parser that accepts every text as it is, and a fixed cutoff.\<close>

definition iso_dates :: "string \<Rightarrow> py_exn + string" where
  "iso_dates d = Inr d"

definition fixed_cutoff :: "int \<Rightarrow> string" where
  "fixed_cutoff k = ''2024-01-01''"


definition stale_world :: "real world" where
  "stale_world = \<lparr>db = [''X'' \<mapsto> [(''2020-01-02'', 100)]], remote_calls = [], stdout = []\<rparr>"




text \<open>A frame with the \<open>high\<close> and \<open>low\<close> columns only.\<close>

definition high_low_frame :: frame where
  "high_low_frame = [''high'' \<mapsto> [Fin 11, Fin 12], ''low'' \<mapsto> [Fin 9, Fin 10]]"

text \<open>
  The true range of the specification; in the first row, where there is no previous
  close, only the range of the day is defined.
\<close>

definition true_range_spec :: "real list \<Rightarrow> real list \<Rightarrow> real list \<Rightarrow> nat \<Rightarrow> real" where
  "true_range_spec hs ls cs t =
     (if t = 0 then hs ! 0 - ls ! 0
      else max (hs ! t - ls ! t) (max \<bar>hs ! t - cs ! (t - 1)\<bar> \<bar>ls ! t - cs ! (t - 1)\<bar>))"

text \<open>The gain and the loss of a day: the positive parts of the price change and of its negation.\<close>

definition price_gain :: "real list \<Rightarrow> nat \<Rightarrow> real" where
  "price_gain ps i = (if i = 0 then 0 else max (ps ! i - ps ! (i - 1)) 0)"

definition price_loss :: "real list \<Rightarrow> nat \<Rightarrow> real" where
  "price_loss ps i = (if i = 0 then 0 else max (ps ! (i - 1) - ps ! i) 0)"

text \<open>
  The exponentially weighted moving average with smoothing factor \<open>\<alpha>\<close>: the observations
  up to \<open>t\<close>, weighted by the powers of \<open>1 - \<alpha>\<close> and divided by the sum of the weights.
\<close>

definition ewma :: "real \<Rightarrow> real list \<Rightarrow> nat \<Rightarrow> real" where
  "ewma \<alpha> xs t = (\<Sum>i\<le>t. (1 - \<alpha>) ^ (t - i) * xs ! i) / (\<Sum>i\<le>t. (1 - \<alpha>) ^ (t - i))"

text \<open>Price frames: flat, rising, growing by a tenth a day, and one with daily bars.\<close>

definition flat_frame :: frame where
  "flat_frame = [''adjClose'' \<mapsto> [Fin 5, Fin 5, Fin 5]]"

definition rising_frame :: frame where
  "rising_frame = [''adjClose'' \<mapsto> [Fin 1, Fin 2, Fin 4]]"



definition bars_frame :: frame where
  "bars_frame = [''high'' \<mapsto> [Fin 11, Fin 12], ''low'' \<mapsto> [Fin 9, Fin 10],
                 ''adjClose'' \<mapsto> [Fin 10, Fin 14]]"

section \<open>Properties of the store, the fetcher and the coordinator\<close>



lemma remote_calls_print [simp]: "remote_calls (print w l) = remote_calls w"
  by (simp add: print_def)

lemma db_print [simp]: "db (print w l) = db w"
  by (simp add: print_def)








lemma convert_dates_Inl:
  "convert_dates td rows = Inl ex \<Longrightarrow> \<exists>d. td d = Inl ex"
  by (induction rows) (auto split: sum.splits)

text \<open>
  Claim C2. Whatever the remote call and the date parser raise (any \<open>Exception\<close>: rate
  limit, invalid token, network error), \<open>fetch_data\<close> returns a frame and raises nothing;
  when the remote call failed, that frame is empty and one line of diagnostic was printed.
\<close>

theorem fetch_data_absorbs_failure:
  assumes client: "\<And>ex. client t s (case e of None \<Rightarrow> now | Some x \<Rightarrow> x) f = Inl ex \<Longrightarrow> is_Exception ex"
      and parser: "\<And>d ex. td d = Inl ex \<Longrightarrow> is_Exception ex"
  shows "\<exists>df. fst (fetch_data client td now w t s e f) = Inr df \<and>
           (\<forall>ex. client t s (case e of None \<Rightarrow> now | Some x \<Rightarrow> x) f = Inl ex \<longrightarrow>
                 df = [] \<and>
                 (\<exists>line. stdout (snd (fetch_data client td now w t s e f)) = stdout w @ [line]))"
proof (cases "client t s (case e of None \<Rightarrow> now | Some x \<Rightarrow> x) f")
  case (Inl ex)
  with client[OF Inl] show ?thesis
    by (simp add: fetch_data_def Let_def print_def)
next
  case (Inr rows)
  show ?thesis
  proof (cases "convert_dates td rows")
    case (Inl ex)
    then obtain d where "td d = Inl ex" using convert_dates_Inl by blast
    then have "is_Exception ex" by (rule parser)
    with Inl Inr show ?thesis by (simp add: fetch_data_def Let_def)
  next
    case (Inr df)
    with \<open>client t s (case e of None \<Rightarrow> now | Some x \<Rightarrow> x) f = Inr rows\<close> show ?thesis
      by (simp add: fetch_data_def Let_def)
  qed
qed

text \<open>A rate-limited service: the fetch returns the empty frame.\<close>

theorem fetch_data_absorbs_failure_witness:
  "rate_limited_client ''X'' ''2021-01-01'' ''2024-01-31'' ''daily'' =
     Inl (RestClientError ''Error: API limit reached for this hour'') \<and>
   is_Exception (RestClientError ''Error: API limit reached for this hour'') \<and>
   fst (fetch_data rate_limited_client iso_dates ''2024-01-31'' stale_world ''X'' ''2021-01-01'' None
          ''daily'') = Inr []"
proof -
  have c: "\<And>ex. rate_limited_client ''X'' ''2021-01-01''
                 (case None of None \<Rightarrow> ''2024-01-31'' | Some x \<Rightarrow> x) ''daily'' = Inl ex
             \<Longrightarrow> is_Exception ex"
    by (auto simp: rate_limited_client_def)
  have p: "\<And>d ex. iso_dates d = Inl ex \<Longrightarrow> is_Exception ex"
    by (simp add: iso_dates_def)
  show ?thesis
    using fetch_data_absorbs_failure [where client = rate_limited_client and t = "''X''"
        and s = "''2021-01-01''" and e = None and now = "''2024-01-31''" and f = "''daily''"
        and td = iso_dates and w = stale_world, OF c p]
    by (auto simp: rate_limited_client_def)
qed

text \<open>
  Claim C3 fails on the code: for every \<open>keep_days > 0\<close> the cutoff is computed from
  \<open>datetime\<close>, a name that database.py never imports, before the guarded \<open>DELETE\<close> is
  reached. The \<open>NameError\<close> leaves \<open>clean_old_data\<close>, nothing is deleted and nothing is
  printed.
\<close>

theorem clean_old_data_raises_NameError:
  "0 < keep_days \<Longrightarrow>
   clean_old_data cutoff_of w table_name keep_days =
     (Inl (NameError (''name '' @ [CHR 0x27] @ ''datetime'' @ [CHR 0x27] @ '' is not defined'')), w)"
  by (simp add: clean_old_data_def resolve_name_def database_globals_def)

theorem clean_old_data_raises_NameError_witness:
  "(0::int) < 30 \<and>
   clean_old_data fixed_cutoff stale_world ''X'' 30 =
     (Inl (NameError (''name '' @ [CHR 0x27] @ ''datetime'' @ [CHR 0x27] @ '' is not defined'')),
      stale_world)"
  using clean_old_data_raises_NameError [of 30 fixed_cutoff stale_world "''X''"] by simp




section \<open>Missing columns in the indicator engine\<close>

text \<open>
  Claim C10. On a frame without the \<open>adjClose\<close> column, \<open>rsi\<close>, \<open>macd\<close> and
  \<open>bollinger_bands\<close> fail with the \<open>KeyError\<close> of the column lookup, while
  \<open>calculate_returns\<close> and \<open>atr\<close> fail with the \<open>ValueError\<close> of their own check.
\<close>

theorem missing_adjClose_is_KeyError:
  assumes "df ''adjClose'' = None"
  shows "rsi w df = Inl (KeyError ''adjClose'') \<and>
         macd fast slow signal df = Inl (KeyError ''adjClose'') \<and>
         bollinger_bands w' num_std df = Inl (KeyError ''adjClose'') \<and>
         calculate_returns fm df =
           Inl (ValueError (''Data must contain '' @ [CHR 0x27] @ ''adjClose'' @ [CHR 0x27] @ '' column'')) \<and>
         atr w'' df = Inl (ValueError ''Data must contain high, low, and adjClose columns'')"
  using assms
  by (simp add: rsi_def macd_def bollinger_bands_def calculate_returns_def atr_def getitem_def)

theorem missing_adjClose_is_KeyError_witness:
  "high_low_frame ''adjClose'' = None \<and>
   rsi 14 high_low_frame = Inl (KeyError ''adjClose'') \<and>
   macd 12 26 9 high_low_frame = Inl (KeyError ''adjClose'') \<and>
   bollinger_bands 20 2 high_low_frame = Inl (KeyError ''adjClose'') \<and>
   calculate_returns Pad high_low_frame =
     Inl (ValueError (''Data must contain '' @ [CHR 0x27] @ ''adjClose'' @ [CHR 0x27] @ '' column'')) \<and>
   atr 14 high_low_frame = Inl (ValueError ''Data must contain high, low, and adjClose columns'')"
proof -
  have h: "high_low_frame ''adjClose'' = None"
    by (simp add: high_low_frame_def)
  show ?thesis
    using missing_adjClose_is_KeyError [of high_low_frame 14 12 26 9 20 2 Pad 14] h by simp
qed


section \<open>Lemmas about series\<close>

lemma length_shift1 [simp]: "length (shift1 xs) = length xs"
  by (simp add: shift1_def)

lemma shift1_nth: "i < length xs \<Longrightarrow> shift1 xs ! i = (if i = 0 then NaN else xs ! (i - 1))"
  by (cases i) (auto simp: shift1_def nth_butlast)

lemma length_rolling_apply [simp]: "length (rolling_apply f w xs) = length xs"
  by (simp add: rolling_apply_def)

lemma rolling_apply_nth:
  "i < length xs \<Longrightarrow>
   rolling_apply f w xs ! i =
     (if w = 0 \<or> Suc i < w then NaN
      else case finite_vals (window_at w i xs) of None \<Rightarrow> NaN | Some vs \<Rightarrow> f vs)"
  by (simp add: rolling_apply_def)

lemma finite_vals_map_Fin [simp]: "finite_vals (map Fin vs) = Some vs"
  by (induction vs) auto

lemma window_at_length:
  "0 < w \<Longrightarrow> w \<le> Suc i \<Longrightarrow> i < length xs \<Longrightarrow> length (window_at w i xs) = w"
  by (auto simp: window_at_def)

lemma window_at_map: "window_at w i (map f xs) = map f (window_at w i xs)"
  by (simp add: window_at_def take_map drop_map)



lemma row_max_first [simp]: "row_max [Fin a, NaN, NaN] = Fin a"
  by (simp add: row_max_def fmax_def)

lemma row_max_three [simp]: "row_max [Fin a, Fin b, Fin c] = Fin (max a (max b c))"
  by (auto simp: row_max_def fmax_def max_def)

lemma true_range_finite:
  assumes "length hs = length cs" and "length ls = length cs"
  shows "true_range (map Fin hs) (map Fin ls) (map Fin cs) =
           map Fin (map (true_range_spec hs ls cs) [0..<length cs])"
proof (rule nth_equalityI)
  show "length (true_range (map Fin hs) (map Fin ls) (map Fin cs)) =
        length (map Fin (map (true_range_spec hs ls cs) [0..<length cs]))"
    using assms by (simp add: true_range_def)
next
  fix i assume "i < length (true_range (map Fin hs) (map Fin ls) (map Fin cs))"
  then have i: "i < length cs" using assms by (simp add: true_range_def)
  show "true_range (map Fin hs) (map Fin ls) (map Fin cs) ! i =
        map Fin (map (true_range_spec hs ls cs) [0..<length cs]) ! i"
  proof (cases "i = 0")
    case True
    with i assms show ?thesis
      by (simp add: true_range_def shift1_nth fsub_def true_range_spec_def)
  next
    case False
    with i assms show ?thesis
      by (simp add: true_range_def shift1_nth fsub_def true_range_spec_def)
  qed
qed


lemma ffill_from_finite: "ffill_from p (map Fin ps) = map Fin ps"
  by (induction ps arbitrary: p) auto

lemma pct_change_length [simp]: "length (pct_change fm (map Fin ps)) = length ps"
  by (cases fm) (simp_all add: pct_change_def ffill_def ffill_from_finite Let_def)


lemma cumprod_from_length [simp]: "length (cumprod_from a xs) = length xs"
  by (induction xs arbitrary: a) (auto simp: Let_def)







lemma rsi_value_zero_loss:
  "ag = NaN \<or> (\<exists>g. ag = Fin g) \<Longrightarrow>
   fsub (Fin 100) (fdiv (Fin 100) (fadd (Fin 1) (fdiv ag (Fin 0)))) =
     (if ag = NaN \<or> ag = Fin 0 then NaN else Fin 100)"
proof (cases ag)
  case (Fin g)
  show ?thesis
  proof (cases "g = 0")
    case True
    with Fin show ?thesis by (simp add: fsub_def)
  next
    case False
    with Fin show ?thesis by (cases "0 < g") (simp_all add: fsub_def signed_inf_def)
  qed
qed (simp_all add: fsub_def)

lemma avg_gain_shape:
  "i < length adj \<Longrightarrow> rsi_avg_gain w adj ! i = NaN \<or> (\<exists>g. rsi_avg_gain w adj ! i = Fin g)"
  by (auto simp: rsi_avg_gain_def Let_def rolling_mean_def rolling_apply_nth series_where_def
      diff_def split: option.splits)

lemma diff_finite_nth:
  "i < length ps \<Longrightarrow>
   diff (map Fin ps) ! i = (if i = 0 then NaN else Fin (ps ! i - ps ! (i - 1)))"
  by (simp add: diff_def shift1_nth fsub_def)

lemma length_diff [simp]: "length (diff xs) = length xs"
  by (simp add: diff_def)

lemma gain_finite:
  "series_where (\<lambda>d. fgt d (Fin 0)) (Fin 0) (diff (map Fin ps)) =
     map Fin (map (price_gain ps) [0..<length ps])"
  by (rule nth_equalityI)
     (auto simp: series_where_def diff_finite_nth fgt_def price_gain_def)

lemma loss_finite:
  "map fneg (series_where (\<lambda>d. flt d (Fin 0)) (Fin 0) (diff (map Fin ps))) =
     map Fin (map (price_loss ps) [0..<length ps])"
  by (rule nth_equalityI)
     (auto simp: series_where_def diff_finite_nth price_loss_def)

lemma rolling_mean_finite_nth:
  "i < length vs \<Longrightarrow>
   rolling_mean w (map Fin vs) ! i =
     (if w = 0 \<or> Suc i < w then NaN else Fin (mean (window_at w i vs)))"
  by (simp add: rolling_mean_def rolling_apply_nth window_at_map)

lemma window_at_last:
  assumes "0 < w" and "w \<le> Suc i" and "i < length xs"
  shows "window_at w i xs = take (w - 1) (drop (Suc i - w) xs) @ [xs ! i]"
proof -
  obtain k where k: "w = Suc k" using assms(1) by (auto simp: gr0_conv_Suc)
  have "k < length (drop (Suc i - w) xs)" using assms k by simp
  then have "take (Suc k) (drop (Suc i - w) xs) =
             take k (drop (Suc i - w) xs) @ [drop (Suc i - w) xs ! k]"
    by (rule take_Suc_conv_app_nth)
  moreover have "drop (Suc i - w) xs ! k = xs ! i" using assms k by simp
  ultimately show ?thesis by (simp add: window_at_def k)
qed

lemma sum_list_all_zero: "\<forall>x\<in>set xs. x = (0::real) \<Longrightarrow> sum_list xs = 0"
  by (induction xs) auto

lemma set_window_at: "set (window_at w i xs) \<subseteq> set xs"
  unfolding window_at_def by (meson set_take_subset set_drop_subset subset_trans)

lemma increasing_avg:
  assumes inc: "sorted_wrt (<) ps" and i: "i < length ps" "0 < i" and w: "0 < w" "w \<le> Suc i"
  shows "rsi_avg_loss w (map Fin ps) ! i = Fin 0"
    and "\<exists>g. 0 < g \<and> rsi_avg_gain w (map Fin ps) ! i = Fin g"
proof -
  let ?n = "length ps"
  have step: "ps ! (j - 1) < ps ! j" if "0 < j" "j < ?n" for j
    using inc that by (simp add: sorted_wrt_iff_nth_less)
  have l0: "price_loss ps j = 0" if "j < ?n" for j
    using step[of j] that by (simp add: price_loss_def)
  have g0: "0 \<le> price_gain ps j" for j
    by (simp add: price_gain_def)
  have gi: "0 < price_gain ps i"
    using step[of i] i by (simp add: price_gain_def)
  let ?L = "map (price_loss ps) [0..<?n]"
  let ?G = "map (price_gain ps) [0..<?n]"
  have "\<forall>x\<in>set (window_at w i ?L). x = 0"
    using set_window_at[of w i ?L] l0 by auto
  then have "mean (window_at w i ?L) = 0"
    by (simp add: mean_def sum_list_all_zero)
  then show "rsi_avg_loss w (map Fin ps) ! i = Fin 0"
    using i w by (simp add: rsi_avg_loss_def Let_def loss_finite rolling_mean_finite_nth del: map_map)
  have wl: "length (window_at w i ?G) = w"
    using window_at_length[of w i ?G] i w by simp
  have "window_at w i ?G = take (w - 1) (drop (Suc i - w) ?G) @ [?G ! i]"
    using i w by (intro window_at_last) simp_all
  moreover have "0 \<le> sum_list (take (w - 1) (drop (Suc i - w) ?G))"
    by (rule sum_list_nonneg) (use g0 in \<open>auto dest!: in_set_takeD in_set_dropD\<close>)
  ultimately have "0 < sum_list (window_at w i ?G)"
    using gi i by simp
  then have "0 < mean (window_at w i ?G)"
    using w wl by (simp add: mean_def)
  moreover have "rsi_avg_gain w (map Fin ps) ! i = Fin (mean (window_at w i ?G))"
    using i w by (simp add: rsi_avg_gain_def Let_def gain_finite rolling_mean_finite_nth del: map_map)
  ultimately show "\<exists>g. 0 < g \<and> rsi_avg_gain w (map Fin ps) ! i = Fin g"
    by blast
qed






lemma ewma_0 [simp]: "ewma \<alpha> xs 0 = xs ! 0"
  by (simp add: ewma_def)







section \<open>Properties of the indicators\<close>

text \<open>
  Claim C5, as the code has it. \<open>rsi\<close> has no case for a zero average loss; it divides.
  Where the rolling average loss is zero, the result is 100 if the rolling average gain
  is a nonzero number, and \<open>NaN\<close> if the average gain is zero or undefined. On a strictly
  increasing series the average loss is zero and the result is 100 at every index
  \<open>i \<ge> 1\<close> at which the window is full.
\<close>

theorem rsi_zero_average_loss:
  assumes "df ''adjClose'' = Some adj"
  shows "\<exists>r. rsi w df = Inr r \<and> length r = length adj \<and>
     (\<forall>i<length adj. rsi_avg_loss w adj ! i = Fin 0 \<longrightarrow>
          r ! i = (if rsi_avg_gain w adj ! i = NaN \<or> rsi_avg_gain w adj ! i = Fin 0 then NaN
                   else Fin 100)) \<and>
     (\<forall>ps i. adj = map Fin ps \<and> sorted_wrt (<) ps \<and> 0 < i \<and> i < length ps \<and> 0 < w \<and> w \<le> Suc i \<longrightarrow>
          rsi_avg_loss w adj ! i = Fin 0 \<and> r ! i = Fin 100)"
proof -
  let ?f = "\<lambda>r. fsub (Fin 100) (fdiv (Fin 100) (fadd (Fin 1) r))"
  let ?r = "map ?f (map2 fdiv (rsi_avg_gain w adj) (rsi_avg_loss w adj))"
  have lg: "length (rsi_avg_gain w adj) = length adj"
    and ll: "length (rsi_avg_loss w adj) = length adj"
    by (simp_all add: rsi_avg_gain_def rsi_avg_loss_def rolling_mean_def series_where_def diff_def)
  have r: "rsi w df = Inr ?r"
    using assms by (simp add: rsi_def getitem_def Let_def)
  have len: "length ?r = length adj"
    using lg ll by simp
  have nth: "?r ! i = ?f (fdiv (rsi_avg_gain w adj ! i) (rsi_avg_loss w adj ! i))"
    if "i < length adj" for i
    using that lg ll by simp
  have zero: "?r ! i = (if rsi_avg_gain w adj ! i = NaN \<or> rsi_avg_gain w adj ! i = Fin 0 then NaN
                        else Fin 100)"
    if "i < length adj" "rsi_avg_loss w adj ! i = Fin 0" for i
    using nth[OF that(1)] that(2) avg_gain_shape[OF that(1), of w]
    by (simp only: rsi_value_zero_loss)
  have inc: "rsi_avg_loss w adj ! i = Fin 0 \<and> ?r ! i = Fin 100"
    if h: "adj = map Fin ps \<and> sorted_wrt (<) ps \<and> 0 < i \<and> i < length ps \<and> 0 < w \<and> w \<le> Suc i"
    for ps i
  proof -
    from h have i: "i < length adj" by simp
    from h have l: "rsi_avg_loss w adj ! i = Fin 0"
      using increasing_avg(1)[of ps i w] by simp
    from h obtain g where g: "0 < g" "rsi_avg_gain w adj ! i = Fin g"
      using increasing_avg(2)[of ps i w] by auto
    from zero[OF i l] g l show ?thesis by simp
  qed
  show ?thesis
    using r len zero inc by (intro exI[of _ ?r] conjI allI impI) blast+
qed

text \<open>The prices 1, 2, 4 with window 2: 100 at both positions where the window is full.\<close>

theorem rsi_zero_average_loss_witness:
  "rising_frame ''adjClose'' = Some (map Fin [1, 2, 4]) \<and> sorted_wrt (<) [1, 2, 4::real] \<and>
   (\<exists>r. rsi 2 rising_frame = Inr r \<and> r ! 1 = Fin 100 \<and> r ! 2 = Fin 100)"
proof -
  have h: "rising_frame ''adjClose'' = Some (map Fin [1, 2, 4])"
    by (simp add: rising_frame_def)
  have s: "sorted_wrt (<) [1, 2, 4::real]" by simp
  obtain r where r: "rsi 2 rising_frame = Inr r"
    "\<forall>ps i. map Fin [1, 2, 4] = map Fin ps \<and> sorted_wrt (<) ps \<and> 0 < i \<and> i < length ps \<and> 0 < (2::nat) \<and> 2 \<le> Suc i \<longrightarrow>
          rsi_avg_loss 2 (map Fin [1, 2, 4]) ! i = Fin 0 \<and> r ! i = Fin 100"
    using rsi_zero_average_loss [where df = rising_frame and adj = "map Fin [1, 2, 4]" and w = 2] h by auto
  have "r ! 1 = Fin 100" using r(2)[rule_format, of "[1, 2, 4]" 1] s by simp
  moreover have "r ! 2 = Fin 100" using r(2)[rule_format, of "[1, 2, 4]" 2] s by simp
  ultimately show ?thesis using h s r(1) by blast
qed

text \<open>
  Claim C5 as stated fails on a flat series: with window 2 the rolling average loss of
  5, 5, 5 is zero at the two positions where the window is full, and \<open>rsi\<close> is \<open>NaN\<close>
  there, not 100.
\<close>

theorem rsi_flat_series_is_NaN:
  "flat_frame ''adjClose'' = Some [Fin 5, Fin 5, Fin 5] \<and>
   rsi_avg_loss 2 [Fin 5, Fin 5, Fin 5] ! 1 = Fin 0 \<and>
   rsi_avg_loss 2 [Fin 5, Fin 5, Fin 5] ! 2 = Fin 0 \<and>
   rsi 2 flat_frame = Inr [NaN, NaN, NaN]"
  by (simp add: flat_frame_def rsi_def getitem_def rsi_avg_loss_def rsi_avg_gain_def Let_def
      rolling_mean_def rolling_apply_def window_at_def diff_def shift1_def series_where_def
      fsub_def fgt_def mean_def)





text \<open>
  Claim C8. \<open>atr\<close> raises if and only if one of \<open>high\<close>, \<open>low\<close>, \<open>adjClose\<close> is absent,
  and what it raises is the \<open>ValueError\<close> of its column check (the specification's
  \<open>MissingColumnError\<close>). With the three columns present and finite it returns the
  rolling mean over the window of the true range: undefined before the window is full,
  the mean of the last \<open>window\<close> true ranges after.
\<close>

theorem atr_raises_iff_column_missing:
  "((\<exists>e. atr w df = Inl e) \<longleftrightarrow> (df ''high'' = None \<or> df ''low'' = None \<or> df ''adjClose'' = None)) \<and>
   (\<forall>e. atr w df = Inl e \<longrightarrow> e = ValueError ''Data must contain high, low, and adjClose columns'') \<and>
   (\<forall>hs ls cs.
      df ''high'' = Some (map Fin hs) \<and> df ''low'' = Some (map Fin ls) \<and>
      df ''adjClose'' = Some (map Fin cs) \<and> length hs = length cs \<and> length ls = length cs \<longrightarrow>
      (\<exists>r. atr w df = Inr r \<and> length r = length cs \<and>
         (\<forall>i<length cs.
            r ! i = (if w = 0 \<or> Suc i < w then NaN
                     else Fin (mean (window_at w i (map (true_range_spec hs ls cs) [0..<length cs])))))))"
proof (intro conjI allI impI)
  show "(\<exists>e. atr w df = Inl e) \<longleftrightarrow> (df ''high'' = None \<or> df ''low'' = None \<or> df ''adjClose'' = None)"
    by (auto simp: atr_def)
next
  fix e assume "atr w df = Inl e"
  then show "e = ValueError ''Data must contain high, low, and adjClose columns''"
    by (auto simp: atr_def split: if_splits)
next
  fix hs ls cs
  assume h: "df ''high'' = Some (map Fin hs) \<and> df ''low'' = Some (map Fin ls) \<and>
      df ''adjClose'' = Some (map Fin cs) \<and> length hs = length cs \<and> length ls = length cs"
  let ?tr = "map (true_range_spec hs ls cs) [0..<length cs]"
  have a: "atr w df = Inr (rolling_mean w (map Fin ?tr))"
    using h by (simp add: atr_def true_range_finite)
  have "rolling_mean w (map Fin ?tr) ! i =
          (if w = 0 \<or> Suc i < w then NaN else Fin (mean (window_at w i ?tr)))"
    if "i < length cs" for i
    using that by (simp add: rolling_mean_def rolling_apply_nth window_at_map del: map_map)
  with a show "\<exists>r. atr w df = Inr r \<and> length r = length cs \<and>
         (\<forall>i<length cs.
            r ! i = (if w = 0 \<or> Suc i < w then NaN
                     else Fin (mean (window_at w i ?tr))))"
    by (simp add: rolling_mean_def)
qed

text \<open>A frame without \<open>adjClose\<close> is refused; two daily bars give the true ranges 2 and 2.\<close>

theorem atr_raises_iff_column_missing_witness:
  "high_low_frame ''adjClose'' = None \<and>
   atr 1 high_low_frame = Inl (ValueError ''Data must contain high, low, and adjClose columns'') \<and>
   bars_frame ''high'' = Some (map Fin [11, 12]) \<and> bars_frame ''low'' = Some (map Fin [9, 10]) \<and>
   bars_frame ''adjClose'' = Some (map Fin [10, 14]) \<and>
   (\<exists>r. atr 1 bars_frame = Inr r \<and> r ! 0 = Fin 2 \<and> r ! 1 = Fin 2)"
proof -
  have m: "high_low_frame ''adjClose'' = None"
    by (simp add: high_low_frame_def)
  have e: "atr 1 high_low_frame = Inl (ValueError ''Data must contain high, low, and adjClose columns'')"
    using atr_raises_iff_column_missing [of 1 high_low_frame] m by (metis sum.exhaust)
  have h: "bars_frame ''high'' = Some (map Fin [11, 12])" "bars_frame ''low'' = Some (map Fin [9, 10])"
    "bars_frame ''adjClose'' = Some (map Fin [10, 14])"
    by (simp_all add: bars_frame_def)
  obtain r where r: "atr 1 bars_frame = Inr r"
    "\<forall>i<length [10, 14::real]. r ! i =
        (if (1::nat) = 0 \<or> Suc i < 1 then NaN
         else Fin (mean (window_at 1 i (map (true_range_spec [11, 12] [9, 10] [10, 14]) [0..<length [10, 14::real]]))))"
    using atr_raises_iff_column_missing [of 1 bars_frame, THEN conjunct2, THEN conjunct2, rule_format,
                of "[11, 12]" "[9, 10]" "[10, 14]"] h
    by auto
  have "r ! 0 = Fin 2"
    using r(2)[rule_format, of 0] by (simp add: window_at_def mean_def true_range_spec_def)
  moreover have "r ! 1 = Fin 2"
    using r(2)[rule_format, of 1] by (simp add: window_at_def mean_def true_range_spec_def)
  ultimately show ?thesis using m e h r(1) by blast
qed




end
